theory Spec2Isabelle
  imports Main "HOL-Library.Word" "HOL-Library.Signed_Division"
begin

unbundle bit_operations_syntax

section \<open>The host's integer types\<close>

text \<open>
  The interpreter of \<^verbatim>\<open>b93.cc\<close> is embedded for the usual 64-bit host: \<^verbatim>\<open>std::int32_t\<close>
  is a 32-bit word, \<^verbatim>\<open>std::size_t\<close> and \<^verbatim>\<open>std::ptrdiff_t\<close> are 64-bit words (read unsigned
  and signed), \<^verbatim>\<open>char\<close> is a signed 8-bit word. Arithmetic is two's complement: \<open>+\<close>,
  \<open>-\<close> and \<open>*\<close> wrap, a narrowing conversion keeps the low bits (\<open>ucast\<close>), a widening
  conversion of a signed value extends the sign (\<open>scast\<close>).
\<close>

type_synonym int32 = "32 word"
type_synonym cell = "8 word"
type_synonym ptrdiff = "64 word"
type_synonym size_t = "64 word"

abbreviation c8 :: "char \<Rightarrow> cell" where
  "c8 \<equiv> of_char"

text \<open>
  \<^verbatim>\<open>b / a\<close> and \<^verbatim>\<open>b % a\<close> on \<^verbatim>\<open>std::int32_t\<close> truncate towards zero. The language gives
  no result for a zero divisor, nor for the quotient of the least value by \<open>-1\<close>: these
  are \<open>None\<close>.
\<close>

definition int32_min :: int32 where
  "int32_min = - (2 ^ 31)"

definition int32_div :: "int32 \<Rightarrow> int32 \<Rightarrow> int32 option" where
  "int32_div b a =
     (if a = 0 \<or> (b = int32_min \<and> a = - 1) then None
      else Some (word_of_int (sint b sdiv sint a)))"

definition int32_rem :: "int32 \<Rightarrow> int32 \<Rightarrow> int32 option" where
  "int32_rem b a =
     (if a = 0 \<or> (b = int32_min \<and> a = - 1) then None
      else Some (word_of_int (sint b smod sint a)))"

section \<open>The grid and the machine state\<close>

definition max_row_size :: size_t where
  "max_row_size = 25"

definition max_col_size :: size_t where
  "max_col_size = 80"

text \<open>
  \<^verbatim>\<open>grid_t\<close>: the members \<^verbatim>\<open>rows\<close> and \<^verbatim>\<open>cols\<close> keep their default initialisers in every
  grid that \<^verbatim>\<open>readfile\<close> returns, so they are constants here; \<^verbatim>\<open>data\<close> is an array of
  \<open>data_size\<close> cells, stored row by row, \<open>cols\<close> cells to a row.
\<close>

definition rows :: size_t where
  "rows = max_row_size"

definition cols :: size_t where
  "cols = max_col_size + 1"

definition data_size :: nat where
  "data_size = unat (max_row_size * (max_col_size + 1))"

datatype out = Out_int int32 | Out_char cell

datatype fault = Undefined_arith | Uninitialised_read | Out_of_array

text \<open>
  \<^verbatim>\<open>grid_t result = {}\<close>: the grid before \<^verbatim>\<open>readfile\<close> copies the program text into it
  (and the grid of an empty file) holds zero in every cell.
\<close>

definition blank_grid :: "cell list" where
  "blank_grid = replicate data_size 0"

text \<open>
  The copy loop of \<^verbatim>\<open>readfile\<close> over the bytes read, with its counters \<open>j\<close> and \<open>cols\<close>
  (here \<open>c\<close>). A \<^verbatim>\<open>continue\<close> still runs the \<^verbatim>\<open>++j\<close> of the loop header: after \<^verbatim>\<open>--j\<close> for a
  continuation byte \<open>j\<close> is as before, after a newline it is at the start of the next
  row. \<^verbatim>\<open>result.data[j]\<close> is not checked by the source; a \<open>j\<close> outside the array is a
  fault here.
\<close>

fun readfile_loop :: "cell list \<Rightarrow> size_t \<Rightarrow> size_t \<Rightarrow> cell list \<Rightarrow> fault + cell list" where
  "readfile_loop [] j c res = Inr res"
| "readfile_loop (b # bs) j c res =
     (if b AND 0xC0 = 0x80 then readfile_loop bs (j - 1 + 1) c res
      else if b = c8 CHR 0x0A then readfile_loop bs (j + (cols - c - 1) + 1) 0 res
      else if unat j < length res then readfile_loop bs (j + 1) (c + 1) (res[unat j := b])
      else Inl Out_of_array)"

text \<open>
  \<^verbatim>\<open>readfile\<close> on a file that could be opened, given as its bytes: at most
  \<^verbatim>\<open>max_row_size * max_col_size\<close> of them are read.
\<close>

definition readfile :: "cell list \<Rightarrow> fault + cell list" where
  "readfile bytes =
     readfile_loop (take (unat (max_row_size * max_col_size)) bytes) 0 0 blank_grid"

text \<open>
  The local variables of \<^verbatim>\<open>interpret\<close>. The stack is the vector with its back at the head
  of the list. \<open>pos\<close> and \<open>dir\<close> are the pairs \<open>(pos[0], pos[1])\<close> and \<open>(dir[0], dir[1])\<close>:
  column first, row second. The console and the random device are outside the program:
  \<open>printed\<close> collects what \<^verbatim>\<open>printf\<close> was given, \<open>ints_in\<close> and \<open>chars_in\<close> hold what the
  coming calls of \<^verbatim>\<open>scanf\<close> will store, and \<open>draws\<close> what the coming calls of
  \<^verbatim>\<open>dist(engine)\<close> will return (a value in 0..3, hence two bits).
\<close>

record machine =
  data :: "cell list"
  stack :: "int32 list"
  pos :: "ptrdiff \<times> ptrdiff"
  dir :: "ptrdiff \<times> ptrdiff"
  printed :: "out list"
  ints_in :: "int32 list"
  chars_in :: "cell list"
  draws :: "nat \<Rightarrow> 2 word"

definition push :: "int32 \<Rightarrow> machine \<Rightarrow> machine" where
  "push v s = s\<lparr>stack := v # stack s\<rparr>"

definition pop :: "machine \<Rightarrow> int32 \<times> machine" where
  "pop s = (case stack s of [] \<Rightarrow> (0, s) | t # st \<Rightarrow> (t, s\<lparr>stack := st\<rparr>))"

text \<open>
  \<^verbatim>\<open>move\<close>: \<^verbatim>\<open>pos[0] + dir[0]\<close> is a \<^verbatim>\<open>ptrdiff_t\<close>, but \<^verbatim>\<open>cols\<close> is a \<^verbatim>\<open>size_t\<close>, so the sum is
  converted to unsigned before \<^verbatim>\<open>%\<close>: both remainders and the addition between them are
  those of unsigned 64-bit words.
\<close>

definition move :: "machine \<Rightarrow> machine" where
  "move s =
     (let p0 = ((fst (pos s) + fst (dir s)) mod cols + cols) mod cols;
          p1 = ((snd (pos s) + snd (dir s)) mod rows + rows) mod rows
      in s\<lparr>pos := (p0, p1)\<rparr>)"

definition dirs :: "(ptrdiff \<times> ptrdiff) list" where
  "dirs = [(0, 1), (0, - 1), (- 1, 0), (1, 0)]"

text \<open>
  The names of the four direction vectors, as the specification's data model fixes them:
  east is one column to the right. They agree with the instructions \<^verbatim>\<open>>\<close>, \<^verbatim>\<open><\<close>, \<^verbatim>\<open>^\<close> and
  \<^verbatim>\<open>v\<close> below (the comment above \<^verbatim>\<open>dirs\<close> in the source lists the last two entries in the
  opposite order).
\<close>

definition south :: "ptrdiff \<times> ptrdiff" where "south = (0, 1)"
definition north :: "ptrdiff \<times> ptrdiff" where "north = (0, - 1)"
definition west :: "ptrdiff \<times> ptrdiff" where "west = (- 1, 0)"
definition east :: "ptrdiff \<times> ptrdiff" where "east = (1, 0)"

text \<open>\<^verbatim>\<open>data[pos[1] * cols + pos[0]]\<close>, the cell under the cursor.\<close>

definition fetch :: "machine \<Rightarrow> cell" where
  "fetch s = data s ! unat (snd (pos s) * cols + fst (pos s))"

text \<open>The bounds test that \<^verbatim>\<open>g\<close> and \<^verbatim>\<open>p\<close> share, on the sign-extended coordinates.\<close>

definition in_bounds :: "ptrdiff \<Rightarrow> ptrdiff \<Rightarrow> bool" where
  "in_bounds x y \<longleftrightarrow> 0 \<le>s x \<and> x <s max_col_size \<and> 0 \<le>s y \<and> y <s max_row_size"

section \<open>The instructions\<close>

text \<open>
  One branch for each case of the \<^verbatim>\<open>switch\<close> in \<^verbatim>\<open>interpret\<close>, in the order of the source,
  except the two that leave the straight line: the quote (its scan is a loop,
  \<open>string_mode\<close> below) and \<^verbatim>\<open>@\<close> (it returns); both are branches of \<open>interpret_b93\<close>. A
  character without a case changes nothing.
\<close>

definition exec :: "bool \<Rightarrow> cell \<Rightarrow> machine \<Rightarrow> fault + machine" where
  "exec extensions ins s =
    (if ins = c8 CHR ''+'' then
       (let (a, s1) = pop s; (b, s2) = pop s1 in Inr (push (a + b) s2))
     else if ins = c8 CHR ''-'' then
       (let (a, s1) = pop s; (b, s2) = pop s1 in Inr (push (b - a) s2))
     else if ins = c8 CHR ''/'' then
       (let (a, s1) = pop s; (b, s2) = pop s1
        in case int32_div b a of None \<Rightarrow> Inl Undefined_arith | Some q \<Rightarrow> Inr (push q s2))
     else if ins = c8 CHR ''*'' then
       (let (a, s1) = pop s; (b, s2) = pop s1 in Inr (push (a * b) s2))
     else if ins = c8 CHR ''%'' then
       (let (a, s1) = pop s; (b, s2) = pop s1
        in case int32_rem b a of None \<Rightarrow> Inl Undefined_arith | Some r \<Rightarrow> Inr (push r s2))
     else if ins = c8 CHR ''!'' then
       (case stack s of
          [] \<Rightarrow> Inr (push 1 s)
        | t # st \<Rightarrow> Inr (s\<lparr>stack := (if t = 0 then 1 else 0) # st\<rparr>))
     else if ins = c8 CHR 0x60 then
       (let (a, s1) = pop s; (b, s2) = pop s1 in Inr (push (if a <s b then 1 else 0) s2))
     else if ins = c8 CHR ''^'' then Inr (s\<lparr>dir := dirs ! 1\<rparr>)
     else if ins = c8 CHR ''v'' then Inr (s\<lparr>dir := dirs ! 0\<rparr>)
     else if ins = c8 CHR ''>'' then Inr (s\<lparr>dir := dirs ! 3\<rparr>)
     else if ins = c8 CHR ''<'' then Inr (s\<lparr>dir := dirs ! 2\<rparr>)
     else if ins = c8 CHR ''_'' then
       (let (v, s1) = pop s in Inr (s1\<lparr>dir := (if v \<noteq> 0 then dirs ! 2 else dirs ! 3)\<rparr>))
     else if ins = c8 CHR ''|'' then
       (let (v, s1) = pop s in Inr (s1\<lparr>dir := (if v \<noteq> 0 then dirs ! 1 else dirs ! 0)\<rparr>))
     else if ins = c8 CHR '':'' then
       Inr (push (case stack s of [] \<Rightarrow> 0 | t # st \<Rightarrow> t) s)
     else if ins = c8 CHR 0x5C then
       (case stack s of
          [] \<Rightarrow> Inr s
        | [t] \<Rightarrow> Inr (push 0 s)
        | t # u # st \<Rightarrow> Inr (s\<lparr>stack := u # t # st\<rparr>))
     else if ins = c8 CHR ''$'' then Inr (snd (pop s))
     else if ins = c8 CHR ''.'' then
       (let (v, s1) = pop s in Inr (s1\<lparr>printed := printed s1 @ [Out_int v]\<rparr>))
     else if ins = c8 CHR '','' then
       (let (v, s1) = pop s in Inr (s1\<lparr>printed := printed s1 @ [Out_char (ucast v)]\<rparr>))
     else if ins = c8 CHR ''#'' then Inr (move s)
     else if ins = c8 CHR ''g'' then
       (let (yv, s1) = pop s; (xv, s2) = pop s1;
            y = (scast yv :: ptrdiff); x = (scast xv :: ptrdiff)
        in Inr (push (if in_bounds x y then scast (data s2 ! unat (y * cols + x)) else 0) s2))
     else if ins = c8 CHR ''p'' then
       (let (yv, s1) = pop s; (xv, s2) = pop s1; (v, s3) = pop s2;
            y = (scast yv :: ptrdiff); x = (scast xv :: ptrdiff)
        in if in_bounds x y
           then Inr (s3\<lparr>data := (data s3)[unat (y * cols + x) := ucast v]\<rparr>)
           else Inr s3)
     else if ins = c8 CHR ''&'' then
       (case ints_in s of
          [] \<Rightarrow> Inl Uninitialised_read
        | v # rest \<Rightarrow> Inr (push v (s\<lparr>ints_in := rest\<rparr>)))
     else if ins = c8 CHR ''~'' then
       (case chars_in s of
          [] \<Rightarrow> Inl Uninitialised_read
        | c # rest \<Rightarrow> Inr (push (scast c) (s\<lparr>chars_in := rest\<rparr>)))
     else if ins \<in> set (map c8 ''0123456789'') then
       Inr (push (scast ins - scast (c8 CHR ''0'')) s)
     else if ins \<in> set (map c8 ''abcdef'') then
       (if \<not> extensions then Inr s
        else Inr (push (scast ins - scast (c8 CHR ''a'') + 10) s))
     else if ins = c8 CHR ''?'' then
       Inr (s\<lparr>dir := dirs ! unat (draws s 0), draws := (\<lambda>n. draws s (Suc n))\<rparr>)
     else if ins = c8 CHR 0x27 then
       (if \<not> extensions then Inr s
        else (let s1 = move s in Inr (push (scast (fetch s1)) s1)))
     else Inr s)"

text \<open>
  The inner loop of the quote case, entered after the first \<^verbatim>\<open>move()\<close>: while the cell
  under the cursor is not a quote, push it and move. The loop has no other exit, so a
  scan that never meets a quote is the value \<open>None\<close>.
\<close>

partial_function (option) string_mode :: "machine \<Rightarrow> machine option" where
  "string_mode s =
     (let ch = fetch s
      in if ch \<noteq> c8 CHR 0x22 then string_mode (move (push (scast ch) s)) else Some s)"

text \<open>
  The outer loop of \<^verbatim>\<open>interpret\<close>, from a machine state on: \<^verbatim>\<open>@\<close> returns, every other
  instruction is followed by \<^verbatim>\<open>move()\<close>. A fault ends the run where the host gives the
  program no defined behaviour.
\<close>

partial_function (option) interpret_b93 :: "bool \<Rightarrow> machine \<Rightarrow> (fault + machine) option" where
  "interpret_b93 extensions s =
     (let ins = fetch s
      in if ins = c8 CHR ''@'' then Some (Inr s)
         else if ins = c8 CHR 0x22 then
           Option.bind (string_mode (move s)) (\<lambda>s'. interpret_b93 extensions (move s'))
         else (case exec extensions ins s of
                 Inl f \<Rightarrow> Some (Inl f)
               | Inr s' \<Rightarrow> interpret_b93 extensions (move s')))"


section \<open>Runs and scenarios\<close>

text \<open>
  The state in which \<^verbatim>\<open>interpret\<close> enters its loop on the grid \<open>g\<close>: empty stack, cursor
  at the origin, \<^verbatim>\<open>dir = {1, 0}\<close>; here with nothing printed yet, the console at end of
  input and a random device that draws 0.
\<close>

definition start :: "cell list \<Rightarrow> machine" where
  "start g = \<lparr>data = g, stack = [], pos = (0, 0), dir = (1, 0),
     printed = [], ints_in = [], chars_in = [], draws = (\<lambda>n. 0)\<rparr>"

text \<open>
  A program pushes \<open>v\<close>, \<open>x\<close> and \<open>y\<close> and executes \<^verbatim>\<open>p\<close>, then pushes \<open>x\<close> and \<open>y\<close> again
  and executes \<^verbatim>\<open>g\<close>.
\<close>

definition put_then_get :: "bool \<Rightarrow> int32 \<Rightarrow> int32 \<Rightarrow> int32 \<Rightarrow> machine \<Rightarrow> fault + machine" where
  "put_then_get extensions x y v s =
     (case exec extensions (c8 CHR ''p'') (push y (push x (push v s))) of
        Inl f \<Rightarrow> Inl f
      | Inr s1 \<Rightarrow> exec extensions (c8 CHR ''g'') (push y (push x s1)))"

text \<open>The grids of the one-character programs \<^verbatim>\<open>_\<close> and \<^verbatim>\<open><\<close>.\<close>

definition underscore_grid :: "cell list" where
  "underscore_grid = blank_grid[0 := c8 CHR ''_'']"

definition west_grid :: "cell list" where
  "west_grid = blank_grid[0 := c8 CHR ''<'']"

text \<open>The cursor invariant: the position is a cell of the grid.\<close>

definition in_grid :: "machine \<Rightarrow> bool" where
  "in_grid s \<longleftrightarrow> fst (pos s) < cols \<and> snd (pos s) < rows"

text \<open>One turn of the loop of \<open>string_mode\<close> on a cell that is not a quote.\<close>

definition scan_step :: "machine \<Rightarrow> machine" where
  "scan_step s = move (push (scast (fetch s)) s)"

text \<open>
  A program of eighteen lines: \<^verbatim>\<open>v\<close>, fifteen empty lines, a space and a quote, and
  \<^verbatim>\<open>>^\<close>. The cursor runs down column 0 to row 17, steps east, turns north and meets
  the quote at column 1 of row 16.
\<close>

definition north_trap_text :: string where
  "north_trap_text =
     ''v'' @ [CHR 0x0A, CHR 0x0A, CHR 0x0A, CHR 0x0A, CHR 0x0A, CHR 0x0A, CHR 0x0A, CHR 0x0A,
              CHR 0x0A, CHR 0x0A, CHR 0x0A, CHR 0x0A, CHR 0x0A, CHR 0x0A, CHR 0x0A, CHR 0x0A]
     @ '' '' @ [CHR 0x22, CHR 0x0A] @ ''>^''"

definition north_trap_grid :: "cell list" where
  "north_trap_grid = blank_grid
     [0 := c8 CHR ''v'', 1296 := c8 CHR '' '', 1297 := c8 CHR 0x22,
      1377 := c8 CHR ''>'', 1378 := c8 CHR ''^'']"

text \<open>The state of that program when the cursor is on the quote.\<close>

definition north_trap_quote :: machine where
  "north_trap_quote = (start north_trap_grid)\<lparr>pos := (1, 16), dir := north\<rparr>"

text \<open>What stays true while the scan of that program goes on.\<close>

definition north_scan :: "machine \<Rightarrow> bool" where
  "north_scan s \<longleftrightarrow>
     data s = north_trap_grid \<and> fst (pos s) = 1 \<and> unat (snd (pos s)) \<le> 15 \<and> dir s = north"

text \<open>The grid of the program \<^verbatim>\<open>"@\<close>: a quote and the halt instruction.\<close>

definition quote_halt_grid :: "cell list" where
  "quote_halt_grid = blank_grid[0 := c8 CHR 0x22, 1 := c8 CHR ''@'']"

section \<open>The stack\<close>

lemma pop_Nil: "stack s = [] \<Longrightarrow> pop s = (0, s)"
  by (simp add: pop_def)

lemma pop_Cons: "stack s = t # st \<Longrightarrow> pop s = (t, s\<lparr>stack := st\<rparr>)"
  by (simp add: pop_def)

lemma pop_push: "pop (push v s) = (v, s)"
  by (simp add: pop_def push_def)

section \<open>Words\<close>

lemma sint_nonneg_uint:
  fixes x :: ptrdiff
  assumes "0 \<le> sint x"
  shows "sint x = uint x"
proof -
  have s: "sint x = signed_take_bit 63 (uint x)"
    by (simp add: sint_uint)
  have "uint x < 2 ^ 63"
  proof (rule ccontr)
    assume "\<not> uint x < 2 ^ 63"
    then have "2 ^ 63 \<le> uint x" by simp
    from signed_take_bit_int_less_eq [OF this]
    have "signed_take_bit 63 (uint x) \<le> uint x - 2 ^ 64"
      by simp
    moreover have "uint x < 2 ^ 64"
      using uint_bounded [of x] by simp
    ultimately show False using assms s by simp
  qed
  moreover have "- (2 ^ 63) \<le> uint x"
    by (rule order_trans [of _ 0]) simp_all
  ultimately have "signed_take_bit 63 (uint x) = uint x"
    by (simp add: signed_take_bit_int_eq_self)
  with s show ?thesis by simp
qed

text \<open>What a cell holds of an \<^verbatim>\<open>int32_t\<close>, read back: the low eight bits, sign-extended.\<close>

lemma sint_char_of_int32:
  fixes v :: int32
  shows "sint (scast (ucast v :: cell) :: int32) = signed_take_bit 7 (sint v)"
proof -
  have "sint (scast (ucast v :: cell) :: int32) = sint (ucast v :: cell)"
    by (simp add: sint_up_scast is_up)
  also have "\<dots> = signed_take_bit 7 (uint v)"
    by (simp add: signed_ucast_eq)
  also have "\<dots> = signed_take_bit 7 (sint v)"
    by (simp add: sint_uint)
  finally show ?thesis .
qed

lemma char_roundtrip_iff:
  fixes v :: int32
  shows "scast (ucast v :: cell) = v \<longleftrightarrow> - 128 \<le>s v \<and> v \<le>s 127"
proof -
  have "scast (ucast v :: cell) = v \<longleftrightarrow> sint (scast (ucast v :: cell) :: int32) = sint v"
    by (rule word_eq_iff_signed)
  also have "\<dots> \<longleftrightarrow> signed_take_bit 7 (sint v) = sint v"
    by (simp only: sint_char_of_int32)
  also have "\<dots> \<longleftrightarrow> - 128 \<le> sint v \<and> sint v < 128"
    by (simp add: signed_take_bit_int_eq_self_iff)
  also have "\<dots> \<longleftrightarrow> - 128 \<le>s v \<and> v \<le>s 127"
    by (auto simp add: word_sle_eq)
  finally show ?thesis .
qed

section \<open>Addressing the grid\<close>

lemma in_bounds_unat:
  assumes "in_bounds x y"
  shows "unat x < 80 \<and> unat y < 25"
proof -
  from assms have x: "0 \<le> sint x" "sint x < 80" and y: "0 \<le> sint y" "sint y < 25"
    by (simp_all add: in_bounds_def word_sle_eq word_sless_alt max_col_size_def max_row_size_def)
  from x sint_nonneg_uint [of x] have "uint x < 80" by simp
  with uint_nat [of x] have "unat x < 80" by linarith
  moreover from y sint_nonneg_uint [of y] have "uint y < 25" by simp
  with uint_nat [of y] have "unat y < 25" by linarith
  ultimately show ?thesis by simp
qed

lemma index_unat:
  assumes "in_bounds x y"
  shows "unat (y * cols + x) = unat y * 81 + unat x"
proof -
  from in_bounds_unat [OF assms] have b: "unat x < 80" "unat y < 25" by simp_all
  then have "unat y * 81 + unat x < 2 ^ 64" by simp
  then show ?thesis
    by (simp add: cols_def max_col_size_def unat_word_ariths)
qed

text \<open>Inside the bounds test, \<^verbatim>\<open>y * cols + x\<close> is an index of the array.\<close>

lemma index_bound:
  assumes "in_bounds x y"
  shows "unat (y * cols + x) < data_size"
  using in_bounds_unat [OF assms] index_unat [OF assms]
  by (simp add: data_size_def max_col_size_def max_row_size_def)

text \<open>The test on the sign-extended coordinates is the test on the popped values.\<close>

lemma in_bounds_int32:
  "in_bounds (scast (x :: int32)) (scast (y :: int32))
     \<longleftrightarrow> 0 \<le>s x \<and> x <s 80 \<and> 0 \<le>s y \<and> y <s 25"
  by (simp add: in_bounds_def word_sle_eq word_sless_alt sint_up_scast is_up
      max_col_size_def max_row_size_def)

section \<open>Reading and writing cells\<close>

lemma p_in_bounds:
  assumes "in_bounds (scast x) (scast y)"
  shows "exec ext (c8 CHR ''p'') (s\<lparr>stack := y # x # v # st\<rparr>) =
     Inr (s\<lparr>stack := st,
            data := (data s)[unat ((scast y :: ptrdiff) * cols + scast x) := ucast v]\<rparr>)"
  using assms by (simp add: exec_def pop_def)

lemma p_out_of_bounds:
  assumes "\<not> in_bounds (scast x) (scast y)"
  shows "exec ext (c8 CHR ''p'') (s\<lparr>stack := y # x # v # st\<rparr>) = Inr (s\<lparr>stack := st\<rparr>)"
  using assms by (simp add: exec_def pop_def)

lemma g_in_bounds:
  assumes "in_bounds (scast x) (scast y)"
  shows "exec ext (c8 CHR ''g'') (s\<lparr>stack := y # x # st\<rparr>) =
     Inr (s\<lparr>stack := scast (data s ! unat ((scast y :: ptrdiff) * cols + scast x)) # st\<rparr>)"
  using assms by (simp add: exec_def pop_def push_def)

text \<open>
  \<^verbatim>\<open>p\<close> and then \<^verbatim>\<open>g\<close> at the same coordinates inside the bounds: the cell holds the low
  eight bits of \<open>v\<close>, and \<^verbatim>\<open>g\<close> pushes them sign-extended on the stack as it was before.
\<close>

lemma put_then_get_in_bounds:
  assumes len: "length (data s) = data_size"
    and inb: "in_bounds (scast x) (scast y)"
  shows "put_then_get ext x y v s =
     Inr (s\<lparr>stack := scast (ucast v :: cell) # stack s,
            data := (data s)[unat ((scast y :: ptrdiff) * cols + scast x) := ucast v]\<rparr>)"
proof -
  let ?i = "unat ((scast y :: ptrdiff) * cols + scast x)"
  have p: "exec ext (c8 CHR ''p'') (push y (push x (push v s))) =
      Inr (s\<lparr>data := (data s)[?i := ucast v]\<rparr>)"
    using p_in_bounds [OF inb, where s = s and v = v and st = "stack s" and ext = ext]
    by (simp add: push_def)
  have i: "?i < length (data s)"
    using index_bound [OF inb] len by simp
  have g: "exec ext (c8 CHR ''g'') (push y (push x (s\<lparr>data := (data s)[?i := ucast v]\<rparr>))) =
      Inr (s\<lparr>stack := scast (ucast v :: cell) # stack s, data := (data s)[?i := ucast v]\<rparr>)"
    using g_in_bounds [OF inb, where s = "s\<lparr>data := (data s)[?i := ucast v]\<rparr>"
        and st = "stack s" and ext = ext] i
    by (simp add: push_def)
  show ?thesis
    by (simp only: put_then_get_def p g sum.case)
qed

section \<open>Moving the cursor\<close>

text \<open>
  For a modulus below \<open>2 ^ 63\<close> the double remainder of \<^verbatim>\<open>move\<close> is the plain unsigned
  remainder of its operand.
\<close>

lemma unat_wrap:
  fixes a n :: size_t
  assumes "0 < unat n" "unat n < 2 ^ 63"
  shows "unat ((a mod n + n) mod n) = unat a mod unat n"
proof -
  have r: "unat (a mod n) = unat a mod unat n"
    by (rule unat_mod)
  have "unat a mod unat n < unat n"
    using assms(1) by simp
  from this assms(2) have "unat a mod unat n < 2 ^ 63"
    by (rule less_trans)
  from this assms(2) have "unat a mod unat n + unat n < 2 ^ 63 + 2 ^ 63"
    by (rule add_strict_mono)
  then have "unat (a mod n) + unat n < 2 ^ 64"
    by (simp add: r)
  then have "unat (a mod n + n) = unat (a mod n) + unat n"
    by (simp add: unat_word_ariths)
  then show ?thesis
    by (simp add: unat_mod r)
qed

lemma move_unat:
  "unat (fst (pos (move s))) = unat (fst (pos s) + fst (dir s)) mod 81"
  "unat (snd (pos (move s))) = unat (snd (pos s) + snd (dir s)) mod 25"
  using unat_wrap [of cols "fst (pos s) + fst (dir s)"]
    unat_wrap [of rows "snd (pos s) + snd (dir s)"]
  by (simp_all add: move_def Let_def cols_def rows_def max_col_size_def max_row_size_def)

lemma unat_cols_rows: "unat cols = 81" "unat rows = 25"
  by (simp_all add: cols_def rows_def max_col_size_def max_row_size_def)

lemma funpow_numeral_step: "(f ^^ numeral k) x = (f ^^ pred_numeral k) (f x)"
  by (simp add: numeral_eq_Suc funpow_swap1)

lemma move_frame:
  "data (move s) = data s" "dir (move s) = dir s" "stack (move s) = stack s"
  by (simp_all add: move_def Let_def)

lemma in_grid_unat: "in_grid s \<longleftrightarrow> unat (fst (pos s)) < 81 \<and> unat (snd (pos s)) < 25"
  by (simp add: in_grid_def word_less_nat_alt cols_def rows_def max_col_size_def max_row_size_def)

lemma move_in_grid: "in_grid (move s)"
  by (simp add: in_grid_unat move_unat)

lemma move_east:
  assumes "dir s = east" "in_grid s"
  shows "unat (fst (pos (move s))) = (unat (fst (pos s)) + 1) mod 81"
    and "snd (pos (move s)) = snd (pos s)"
proof -
  from assms(2) have x: "unat (fst (pos s)) < 81" and y: "unat (snd (pos s)) < 25"
    by (simp_all add: in_grid_unat)
  from x have "unat (fst (pos s) + 1) = unat (fst (pos s)) + 1"
    by (simp add: unat_word_ariths)
  with assms(1) show "unat (fst (pos (move s))) = (unat (fst (pos s)) + 1) mod 81"
    by (simp add: move_unat east_def)
  from y assms(1) have "unat (snd (pos (move s))) = unat (snd (pos s))"
    by (simp add: move_unat east_def)
  then show "snd (pos (move s)) = snd (pos s)"
    by (rule unsigned_word_eqI)
qed

lemma move_south:
  assumes "dir s = south" "in_grid s"
  shows "unat (snd (pos (move s))) = (unat (snd (pos s)) + 1) mod 25"
    and "fst (pos (move s)) = fst (pos s)"
proof -
  from assms(2) have x: "unat (fst (pos s)) < 81" and y: "unat (snd (pos s)) < 25"
    by (simp_all add: in_grid_unat)
  from y have "unat (snd (pos s) + 1) = unat (snd (pos s)) + 1"
    by (simp add: unat_word_ariths)
  with assms(1) show "unat (snd (pos (move s))) = (unat (snd (pos s)) + 1) mod 25"
    by (simp add: move_unat south_def)
  from x assms(1) have "unat (fst (pos (move s))) = unat (fst (pos s))"
    by (simp add: move_unat south_def)
  then show "fst (pos (move s)) = fst (pos s)"
    by (rule unsigned_word_eqI)
qed

lemma east_moves:
  assumes "dir s = east" "in_grid s"
  shows "unat (fst (pos ((move ^^ k) s))) = (unat (fst (pos s)) + k) mod 81
    \<and> snd (pos ((move ^^ k) s)) = snd (pos s)
    \<and> dir ((move ^^ k) s) = east \<and> in_grid ((move ^^ k) s)"
proof (induction k)
  case 0
  from assms show ?case by (simp add: in_grid_unat)
next
  case (Suc k)
  let ?t = "(move ^^ k) s"
  from Suc have d: "dir ?t = east" and g: "in_grid ?t" by simp_all
  from move_east [OF d g] Suc show ?case
    by (simp add: move_frame move_in_grid mod_Suc_eq)
qed

lemma south_moves:
  assumes "dir s = south" "in_grid s"
  shows "unat (snd (pos ((move ^^ k) s))) = (unat (snd (pos s)) + k) mod 25
    \<and> fst (pos ((move ^^ k) s)) = fst (pos s)
    \<and> dir ((move ^^ k) s) = south \<and> in_grid ((move ^^ k) s)"
proof (induction k)
  case 0
  from assms show ?case by (simp add: in_grid_unat)
next
  case (Suc k)
  let ?t = "(move ^^ k) s"
  from Suc have d: "dir ?t = south" and g: "in_grid ?t" by simp_all
  from move_south [OF d g] Suc show ?case
    by (simp add: move_frame move_in_grid mod_Suc_eq)
qed

lemma east_round_trip:
  assumes "dir s = east" "in_grid s"
  shows "pos ((move ^^ unat cols) s) = pos s"
proof -
  from assms(2) have x: "unat (fst (pos s)) < 81" by (simp add: in_grid_unat)
  from east_moves [OF assms, of 81] x
  have "unat (fst (pos ((move ^^ 81) s))) = unat (fst (pos s))"
    and "snd (pos ((move ^^ 81) s)) = snd (pos s)" by simp_all
  then have "fst (pos ((move ^^ 81) s)) = fst (pos s)"
    and "snd (pos ((move ^^ 81) s)) = snd (pos s)"
    by (simp_all add: unsigned_word_eqI)
  then show ?thesis
    by (simp add: prod_eq_iff cols_def max_col_size_def)
qed

lemma south_round_trip:
  assumes "dir s = south" "in_grid s"
  shows "pos ((move ^^ unat rows) s) = pos s"
proof -
  from assms(2) have y: "unat (snd (pos s)) < 25" by (simp add: in_grid_unat)
  from south_moves [OF assms, of 25] y
  have "unat (snd (pos ((move ^^ 25) s))) = unat (snd (pos s))"
    and "fst (pos ((move ^^ 25) s)) = fst (pos s)" by simp_all
  then have "fst (pos ((move ^^ 25) s)) = fst (pos s)"
    and "snd (pos ((move ^^ 25) s)) = snd (pos s)"
    by (simp_all add: unsigned_word_eqI)
  then show ?thesis
    by (simp add: prod_eq_iff rows_def max_row_size_def)
qed


section \<open>String mode\<close>

lemma string_mode_reaches_quote:
  assumes "fetch ((scan_step ^^ k) s) = c8 CHR 0x22"
  shows "\<exists>t. string_mode s = Some t"
  using assms
proof (induction k arbitrary: s)
  case 0
  then show ?case by (subst string_mode.simps) simp
next
  case (Suc k)
  show ?case
  proof (cases "fetch s = c8 CHR 0x22")
    case True
    then show ?thesis by (subst string_mode.simps) simp
  next
    case False
    from Suc.prems have "fetch ((scan_step ^^ k) (scan_step s)) = c8 CHR 0x22"
      by (simp add: funpow_swap1)
    then obtain t where "string_mode (scan_step s) = Some t"
      using Suc.IH by blast
    with False show ?thesis
      by (subst string_mode.simps) (simp add: scan_step_def Let_def)
  qed
qed

lemma fetch_stack_update: "fetch (s\<lparr>stack := st\<rparr>) = fetch s"
  by (simp add: fetch_def)

lemma move_stack_update: "move (s\<lparr>stack := st\<rparr>) = (move s)\<lparr>stack := st\<rparr>"
  by (simp add: move_def Let_def)

lemma scan_steps_moves: "\<exists>st. (scan_step ^^ k) s = ((move ^^ k) s)\<lparr>stack := st\<rparr>"
proof (induction k)
  case 0
  show ?case by (rule exI [of _ "stack s"]) simp
next
  case (Suc k)
  then obtain st where "(scan_step ^^ k) s = ((move ^^ k) s)\<lparr>stack := st\<rparr>" ..
  then have "(scan_step ^^ Suc k) s =
      ((move ^^ Suc k) s)\<lparr>stack := scast (fetch ((move ^^ k) s)) # st\<rparr>"
    by (simp add: scan_step_def push_def move_stack_update fetch_stack_update)
  then show ?case ..
qed

lemma moves_data: "data ((move ^^ k) s) = data s"
  by (induction k) (simp_all add: move_frame)

lemma fetch_cong: "data s = data t \<Longrightarrow> pos s = pos t \<Longrightarrow> fetch s = fetch t"
  by (simp add: fetch_def)

lemma string_mode_east_terminates:
  assumes "fetch q = c8 CHR 0x22" "dir q = east" "in_grid q"
  shows "\<exists>t. string_mode (move q) = Some t"
proof -
  obtain st where "(scan_step ^^ 80) (move q) = ((move ^^ 80) (move q))\<lparr>stack := st\<rparr>"
    using scan_steps_moves by blast
  then have "fetch ((scan_step ^^ 80) (move q)) = fetch ((move ^^ 80) (move q))"
    by (simp add: fetch_stack_update)
  also have "(move ^^ 80) (move q) = (move ^^ Suc 80) q"
    by (simp only: funpow_Suc_right o_apply)
  also have "Suc 80 = unat cols"
    by (simp add: cols_def max_col_size_def)
  also have "fetch ((move ^^ unat cols) q) = fetch q"
    by (rule fetch_cong) (simp_all add: moves_data east_round_trip [OF assms(2,3)])
  finally have "fetch ((scan_step ^^ 80) (move q)) = c8 CHR 0x22"
    using assms(1) by simp
  then show ?thesis by (rule string_mode_reaches_quote)
qed

lemma string_mode_south_terminates:
  assumes "fetch q = c8 CHR 0x22" "dir q = south" "in_grid q"
  shows "\<exists>t. string_mode (move q) = Some t"
proof -
  obtain st where "(scan_step ^^ 24) (move q) = ((move ^^ 24) (move q))\<lparr>stack := st\<rparr>"
    using scan_steps_moves by blast
  then have "fetch ((scan_step ^^ 24) (move q)) = fetch ((move ^^ 24) (move q))"
    by (simp add: fetch_stack_update)
  also have "(move ^^ 24) (move q) = (move ^^ Suc 24) q"
    by (simp only: funpow_Suc_right o_apply)
  also have "Suc 24 = unat rows"
    by (simp add: rows_def max_row_size_def)
  also have "fetch ((move ^^ unat rows) q) = fetch q"
    by (rule fetch_cong) (simp_all add: moves_data south_round_trip [OF assms(2,3)])
  finally have "fetch ((scan_step ^^ 24) (move q)) = c8 CHR 0x22"
    using assms(1) by simp
  then show ?thesis by (rule string_mode_reaches_quote)
qed

text \<open>The scan of the program \<open>north_trap_text\<close> only meets cells that hold zero.\<close>

lemma north_scan_fetch:
  assumes "north_scan s"
  shows "fetch s = 0"
proof -
  from assms have y: "unat (snd (pos s)) \<le> 15" and x: "fst (pos s) = 1"
    and d: "data s = north_trap_grid"
    by (simp_all add: north_scan_def)
  from y have "unat (snd (pos s)) * 81 + 1 < 2 ^ 64" by simp
  then have i: "unat (snd (pos s) * cols + fst (pos s)) = unat (snd (pos s)) * 81 + 1"
    using y x by (simp add: cols_def max_col_size_def unat_word_ariths)
  from y show ?thesis
    by (simp add: fetch_def i d north_trap_grid_def blank_grid_def data_size_def
        max_row_size_def max_col_size_def)
qed

lemma north_scan_step:
  assumes "north_scan s"
  shows "north_scan (move (push v s))"
proof -
  let ?y = "snd (pos s)"
  from assms have y: "unat ?y \<le> 15" and x: "fst (pos s) = 1"
    and d: "data s = north_trap_grid" and n: "dir s = north"
    by (simp_all add: north_scan_def)
  have "unat (?y + (- 1)) mod 25 \<le> 15"
  proof (cases "?y = 0")
    case True
    then show ?thesis by (simp add: unsigned_minus_1_eq_mask mask_eq_exp_minus_1)
  next
    case False
    then have "unat (?y - 1) = unat ?y - 1"
      by (rule unat_minus_one)
    with y show ?thesis by simp
  qed
  then have "unat (snd (pos (move (push v s)))) \<le> 15"
    using n by (simp add: move_unat push_def north_def)
  moreover have "fst (pos (move (push v s))) = 1"
    using x n by (simp add: move_def Let_def push_def north_def cols_def max_col_size_def)
  ultimately show ?thesis
    using d n by (simp add: north_scan_def move_frame push_def)
qed

lemma string_mode_Some_not_north_scan:
  assumes "string_mode s = Some t"
  shows "\<not> north_scan s"
proof (rule string_mode.raw_induct [where P = "\<lambda>s t. \<not> north_scan s", OF _ assms])
  fix scan s t
  assume IH: "\<And>s t. scan s = Some t \<Longrightarrow> \<not> north_scan s"
    and body: "(let ch = fetch s
         in if ch \<noteq> c8 CHR 0x22 then scan (move (push (scast ch) s)) else Some s) = Some t"
  show "\<not> north_scan s"
  proof
    assume inv: "north_scan s"
    then have "fetch s = 0" by (rule north_scan_fetch)
    with body have "scan (move (push (scast (fetch s)) s)) = Some t"
      by (simp add: Let_def)
    then have "\<not> north_scan (move (push (scast (fetch s)) s))"
      by (rule IH)
    with north_scan_step [OF inv] show False by simp
  qed
qed

lemma north_scan_diverges: "north_scan s \<Longrightarrow> string_mode s = None"
  using string_mode_Some_not_north_scan [of s] by (cases "string_mode s") auto

text \<open>
  The program \<^verbatim>\<open>"@\<close> halts: heading east the scan goes once around row 0, back to its
  quote, and the next cell is \<^verbatim>\<open>@\<close>.
\<close>

lemma quote_halt_program_halts:
  "\<exists>t. interpret_b93 ext (start quote_halt_grid) = Some (Inr t)"
  by (simp add: interpret_b93.simps string_mode.simps start_def fetch_def push_def
      move_def Let_def cols_def rows_def quote_halt_grid_def blank_grid_def data_size_def
      max_row_size_def max_col_size_def)

lemma readfile_north_trap: "readfile (map c8 north_trap_text) = Inr north_trap_grid"
  by (simp add: readfile_def north_trap_text_def north_trap_grid_def blank_grid_def
      data_size_def cols_def max_row_size_def max_col_size_def)

section \<open>The claims\<close>

text \<open>
  C4. \<^verbatim>\<open>pop\<close> on an empty stack yields 0 and leaves the machine, its empty stack included,
  as it was; \<^verbatim>\<open>push\<close> is total: from every state it gives the state with the value on
  top of the unchanged stack, from which \<^verbatim>\<open>pop\<close> takes it off again.
\<close>

theorem pop_empty_push_total:
  "pop (s\<lparr>stack := []\<rparr>) = (0, s\<lparr>stack := []\<rparr>)
   \<and> stack (snd (pop (s\<lparr>stack := []\<rparr>))) = []
   \<and> stack (push v s) = v # stack s
   \<and> pop (push v s) = (v, s)"
  by (simp add: pop_def push_def)

text \<open>
  C1, as the code has it. On an empty stack \<^verbatim>\<open>_\<close> pops the value 0 and so takes its
  zero branch, \<^verbatim>\<open>dirs[3]\<close>: the direction becomes east, one column to the right, and the
  stack stays empty. The result is a function of the state alone; the random device is
  not consulted.
\<close>

theorem underscore_empty_east:
  "exec ext (c8 CHR ''_'') (s\<lparr>stack := []\<rparr>) = Inr (s\<lparr>stack := [], dir := east\<rparr>)"
  by (simp add: exec_def pop_def dirs_def east_def)

text \<open>
  C1 as stated fails: in the start state of the program \<^verbatim>\<open>_\<close> the stack is empty, the
  cursor is on the \<^verbatim>\<open>_\<close>, and executing it leaves the direction east, not west.
\<close>

theorem underscore_empty_not_west:
  "stack (start underscore_grid) = []
   \<and> fetch (start underscore_grid) = c8 CHR ''_''
   \<and> exec False (c8 CHR ''_'') (start underscore_grid) = Inr (start underscore_grid)
   \<and> dir (start underscore_grid) = east
   \<and> dir (start underscore_grid) \<noteq> west"
  by (simp add: exec_def pop_def dirs_def east_def west_def start_def fetch_def
      underscore_grid_def blank_grid_def data_size_def max_row_size_def max_col_size_def)

text \<open>
  C5. \<^verbatim>\<open>_\<close> pops a value \<open>v\<close> (0 from the empty stack) and sets the direction to west if
  \<open>v \<noteq> 0\<close> and to east if \<open>v = 0\<close>; nothing else changes.
\<close>

theorem underscore_west_east:
  "exec ext (c8 CHR ''_'') (s\<lparr>stack := v # st\<rparr>) =
     Inr (s\<lparr>stack := st, dir := (if v \<noteq> 0 then west else east)\<rparr>)
   \<and> exec ext (c8 CHR ''_'') s =
     Inr ((snd (pop s))\<lparr>dir := (if fst (pop s) \<noteq> 0 then west else east)\<rparr>)"
  by (simp add: exec_def pop_def dirs_def west_def east_def split: list.splits)

text \<open>
  C6, as the code has it. Each of \<^verbatim>\<open>-\<close>, \<^verbatim>\<open>/\<close> and \<^verbatim>\<open>%\<close> pops \<open>a\<close> first and \<open>b\<close> second
  (0 where the stack has run out). \<^verbatim>\<open>-\<close> pushes the one value \<open>b - a\<close>, wrapped, on what
  is left of the stack. \<^verbatim>\<open>/\<close> and \<^verbatim>\<open>%\<close> push the one value \<open>b OP a\<close>, the quotient and the
  remainder truncated towards zero, whenever \<open>a \<noteq> 0\<close> and not both \<open>b\<close> is the least value
  and \<open>a = -1\<close>; in those two cases the host arithmetic has no defined result and nothing
  is pushed: the run ends in the fault \<open>Undefined_arith\<close>. After pushing 2 and then 3,
  \<^verbatim>\<open>-\<close> leaves exactly \<open>-1\<close>.
\<close>

theorem arith_second_popped_op_first_popped:
  assumes "pop s = (a, s1)" and "pop s1 = (b, s2)"
  shows "exec ext (c8 CHR ''-'') s = Inr (s2\<lparr>stack := (b - a) # stack s2\<rparr>)
   \<and> (a \<noteq> 0 \<and> \<not> (b = int32_min \<and> a = - 1) \<longrightarrow>
        exec ext (c8 CHR ''/'') s =
          Inr (s2\<lparr>stack := word_of_int (sint b sdiv sint a) # stack s2\<rparr>)
      \<and> exec ext (c8 CHR ''%'') s =
          Inr (s2\<lparr>stack := word_of_int (sint b smod sint a) # stack s2\<rparr>))
   \<and> (a = 0 \<or> (b = int32_min \<and> a = - 1) \<longrightarrow>
        exec ext (c8 CHR ''/'') s = Inl Undefined_arith
      \<and> exec ext (c8 CHR ''%'') s = Inl Undefined_arith)
   \<and> exec ext (c8 CHR ''-'') (push 3 (push 2 (s\<lparr>stack := []\<rparr>))) = Inr (s\<lparr>stack := [- 1]\<rparr>)"
  using assms
  by (simp add: exec_def push_def int32_div_def int32_rem_def pop_Cons)

theorem arith_second_popped_op_first_popped_witness:
  "exec False (c8 CHR ''-'') ((start blank_grid)\<lparr>stack := [3, 2, 9]\<rparr>)
     = Inr ((start blank_grid)\<lparr>stack := [- 1, 9]\<rparr>)
   \<and> exec False (c8 CHR ''/'') ((start blank_grid)\<lparr>stack := [2, - 7, 9]\<rparr>)
     = Inr ((start blank_grid)\<lparr>stack := [- 3, 9]\<rparr>)
   \<and> exec False (c8 CHR ''%'') ((start blank_grid)\<lparr>stack := [2, - 7, 9]\<rparr>)
     = Inr ((start blank_grid)\<lparr>stack := [- 1, 9]\<rparr>)
   \<and> exec False (c8 CHR ''/'') ((start blank_grid)\<lparr>stack := [0, 5, 9]\<rparr>)
     = Inl Undefined_arith
   \<and> exec False (c8 CHR ''%'') ((start blank_grid)\<lparr>stack := [0, 5, 9]\<rparr>)
     = Inl Undefined_arith"
  using arith_second_popped_op_first_popped
      [of "(start blank_grid)\<lparr>stack := [3, 2, 9]\<rparr>" 3 "(start blank_grid)\<lparr>stack := [2, 9]\<rparr>"
        2 "(start blank_grid)\<lparr>stack := [9]\<rparr>" False]
    arith_second_popped_op_first_popped
      [of "(start blank_grid)\<lparr>stack := [2, - 7, 9]\<rparr>" 2
        "(start blank_grid)\<lparr>stack := [- 7, 9]\<rparr>" "- 7" "(start blank_grid)\<lparr>stack := [9]\<rparr>"
        False]
    arith_second_popped_op_first_popped
      [of "(start blank_grid)\<lparr>stack := [0, 5, 9]\<rparr>" 0
        "(start blank_grid)\<lparr>stack := [5, 9]\<rparr>" 5 "(start blank_grid)\<lparr>stack := [9]\<rparr>"
        False]
  by (simp add: pop_def int32_min_def signed_divide_int_def signed_modulo_int_def)

text \<open>
  C6 as stated fails where the divisor is zero: in the start state of any program the
  stack is empty, both operands pop as 0, and \<^verbatim>\<open>/\<close> and \<^verbatim>\<open>%\<close> push no result.
\<close>

theorem div_rem_on_empty_stack_undefined:
  "stack (start blank_grid) = []
   \<and> pop (start blank_grid) = (0, start blank_grid)
   \<and> exec False (c8 CHR ''/'') (start blank_grid) = Inl Undefined_arith
   \<and> exec False (c8 CHR ''%'') (start blank_grid) = Inl Undefined_arith"
  by (simp add: exec_def pop_def int32_div_def int32_rem_def start_def)

text \<open>
  C7. \<^verbatim>\<open>\\<close> on two or more values exchanges the top two; on exactly one value \<open>v\<close> it
  leaves \<open>v\<close> at the bottom and 0 on top; on the empty stack it changes nothing.
\<close>

theorem swap_top_two:
  "exec ext (c8 CHR 0x5C) (s\<lparr>stack := t # u # st\<rparr>) = Inr (s\<lparr>stack := u # t # st\<rparr>)
   \<and> exec ext (c8 CHR 0x5C) (s\<lparr>stack := [v]\<rparr>) = Inr (s\<lparr>stack := [0, v]\<rparr>)
   \<and> exec ext (c8 CHR 0x5C) (s\<lparr>stack := []\<rparr>) = Inr (s\<lparr>stack := []\<rparr>)"
  by (simp add: exec_def push_def)

text \<open>
  C8. With \<open>x\<close>, \<open>y\<close> and \<open>v\<close> on the stack (\<open>y\<close> on top) and \<open>x < 0\<close> or \<open>x \<ge> 80\<close> or
  \<open>y < 0\<close> or \<open>y \<ge> 25\<close>, \<^verbatim>\<open>p\<close> pops the three values and changes nothing else: every
  cell of the grid is as before.
\<close>

theorem p_out_of_bounds_discarded:
  assumes "x <s 0 \<or> 80 \<le>s x \<or> y <s 0 \<or> 25 \<le>s y"
  shows "exec ext (c8 CHR ''p'') (s\<lparr>stack := y # x # v # st\<rparr>) = Inr (s\<lparr>stack := st\<rparr>)
   \<and> data (s\<lparr>stack := st\<rparr>) = data s"
proof -
  from assms have "\<not> in_bounds (scast x) (scast y)"
    by (auto simp add: in_bounds_int32)
  from p_out_of_bounds [OF this] show ?thesis by simp
qed

theorem p_out_of_bounds_discarded_witness:
  "((80 :: int32) <s 0 \<or> (80 :: int32) \<le>s 80 \<or> (0 :: int32) <s 0 \<or> (25 :: int32) \<le>s 0)
   \<and> exec False (c8 CHR ''p'') ((start blank_grid)\<lparr>stack := [0, 80, 65, 7]\<rparr>)
     = Inr ((start blank_grid)\<lparr>stack := [7]\<rparr>)
   \<and> data ((start blank_grid)\<lparr>stack := [7]\<rparr>) = blank_grid"
  using p_out_of_bounds_discarded [where x = 80 and y = 0 and ext = False
      and s = "start blank_grid" and v = 65 and st = "[7]"]
  by (simp add: start_def)

text \<open>
  C9. Inside the bounds, \<^verbatim>\<open>p\<close> stores \<open>v\<close> converted to the cell type, the low eight bits,
  and nothing else; a \<^verbatim>\<open>g\<close> at the same coordinates pushes these bits sign-extended.
  That value differs from \<open>v\<close> exactly when \<open>v\<close> is outside \<open>-128..127\<close>.
\<close>

theorem p_stores_char_g_reads_char:
  assumes "length (data s) = data_size"
    and "0 \<le>s x \<and> x <s 80 \<and> 0 \<le>s y \<and> y <s 25"
  shows "put_then_get ext x y v s =
     Inr (s\<lparr>stack := scast (ucast v :: cell) # stack s,
            data := (data s)[unat ((scast y :: ptrdiff) * cols + scast x) := ucast v]\<rparr>)
   \<and> ((scast (ucast v :: cell) :: int32) \<noteq> v \<longleftrightarrow> \<not> (- 128 \<le>s v \<and> v \<le>s 127))"
proof -
  from assms(2) have "in_bounds (scast x) (scast y)"
    by (simp add: in_bounds_int32)
  from put_then_get_in_bounds [OF assms(1) this] show ?thesis
    by (simp add: char_roundtrip_iff)
qed

theorem p_stores_char_g_reads_char_witness:
  "length (data (start blank_grid)) = data_size
   \<and> ((0 :: int32) \<le>s 3 \<and> (3 :: int32) <s 80 \<and> (0 :: int32) \<le>s 1 \<and> (1 :: int32) <s 25)
   \<and> put_then_get False 3 1 200 (start blank_grid)
     = Inr ((start blank_grid)\<lparr>stack := [- 56], data := blank_grid[84 := 200]\<rparr>)"
proof -
  have l: "length (data (start blank_grid)) = data_size"
    by (simp add: start_def blank_grid_def)
  have b: "(0 :: int32) \<le>s 3 \<and> (3 :: int32) <s 80 \<and> (0 :: int32) \<le>s 1 \<and> (1 :: int32) <s 25"
    by (simp add: word_sle_eq word_sless_alt)
  from p_stores_char_g_reads_char [OF l b, where ext = False and v = 200] l b show ?thesis
    by (simp add: start_def cols_def max_col_size_def)
qed

text \<open>
  C2, as the code has it. Inside the bounds, a \<^verbatim>\<open>g\<close> after a \<^verbatim>\<open>p\<close> at the same coordinates
  pushes exactly \<open>v\<close> when \<open>v\<close> is in the range of the cell type, \<open>-128..127\<close>, and for any
  other \<open>v\<close> it pushes \<open>v\<close> converted to the cell type: the low eight bits, sign-extended.
  The stack below and every other cell are as before \<^verbatim>\<open>p\<close>.
\<close>

theorem p_then_g_round_trip:
  assumes "length (data s) = data_size"
    and "0 \<le>s x \<and> x <s 80 \<and> 0 \<le>s y \<and> y <s 25"
  shows "put_then_get ext x y v s =
     Inr (s\<lparr>stack := (if - 128 \<le>s v \<and> v \<le>s 127 then v else scast (ucast v :: cell))
                     # stack s,
            data := (data s)[unat ((scast y :: ptrdiff) * cols + scast x) := ucast v]\<rparr>)"
proof -
  from assms(2) have inb: "in_bounds (scast x) (scast y)"
    by (simp add: in_bounds_int32)
  have "(if - 128 \<le>s v \<and> v \<le>s 127 then v else scast (ucast v :: cell))
      = scast (ucast v :: cell)"
    using char_roundtrip_iff [of v] by auto
  then show ?thesis
    using put_then_get_in_bounds [OF assms(1) inb, where ext = ext and v = v]
    by (simp only:)
qed

theorem p_then_g_round_trip_witness:
  "length (data (start blank_grid)) = data_size
   \<and> ((0 :: int32) \<le>s 3 \<and> (3 :: int32) <s 80 \<and> (0 :: int32) \<le>s 1 \<and> (1 :: int32) <s 25)
   \<and> ((- 128 :: int32) \<le>s - 2 \<and> (- 2 :: int32) \<le>s 127)
   \<and> put_then_get False 3 1 (- 2) (start blank_grid)
     = Inr ((start blank_grid)\<lparr>stack := [- 2],
              data := blank_grid[84 := ucast (- 2 :: int32)]\<rparr>)
   \<and> \<not> ((- 128 :: int32) \<le>s 300 \<and> (300 :: int32) \<le>s 127)
   \<and> put_then_get False 3 1 300 (start blank_grid)
     = Inr ((start blank_grid)\<lparr>stack := [44],
              data := blank_grid[84 := ucast (300 :: int32)]\<rparr>)"
proof -
  have l: "length (data (start blank_grid)) = data_size"
    by (simp add: start_def blank_grid_def)
  have b: "(0 :: int32) \<le>s 3 \<and> (3 :: int32) <s 80 \<and> (0 :: int32) \<le>s 1 \<and> (1 :: int32) <s 25"
    by (simp add: word_sle_eq word_sless_alt)
  have c: "(- 128 :: int32) \<le>s - 2 \<and> (- 2 :: int32) \<le>s 127"
    by (simp add: word_sle_eq)
  have d: "\<not> ((- 128 :: int32) \<le>s 300 \<and> (300 :: int32) \<le>s 127)"
    by (simp add: word_sle_eq)
  from p_then_g_round_trip [OF l b, where ext = False and v = "- 2"]
    p_then_g_round_trip [OF l b, where ext = False and v = 300] l b c d
  show ?thesis
    by (simp add: start_def cols_def max_col_size_def)
qed

text \<open>
  C2 as stated fails for a value outside the cell type: \<^verbatim>\<open>p\<close> of 300 at (0, 0) of the
  blank grid stores 44, and the \<^verbatim>\<open>g\<close> that follows pushes 44.
\<close>

theorem p_then_g_300_gives_44:
  "put_then_get False 0 0 300 (start blank_grid)
     = Inr ((start blank_grid)\<lparr>stack := [44],
              data := blank_grid[0 := ucast (300 :: int32)]\<rparr>)
   \<and> (ucast (300 :: int32) :: cell) = 44
   \<and> (44 :: int32) \<noteq> 300"
  by (simp add: put_then_get_def exec_def push_def pop_def in_bounds_def start_def
      blank_grid_def data_size_def cols_def max_row_size_def max_col_size_def
      word_sle_eq word_sless_alt)

text \<open>
  C3, at the inputs where the code departs from it. The program \<^verbatim>\<open><\<close> sets the
  direction west at the origin; one \<^verbatim>\<open>move\<close> then puts the cursor on column 51, not on
  the last column, and \<open>cols\<close> moves leave it on column 23, not back on column 0.
  Heading north from row 0 the cursor lands on row 15, and after \<open>rows\<close> moves it is on
  row 7. (Heading east or south the round trip holds from every cell:
  \<open>east_round_trip\<close>, \<open>south_round_trip\<close>.)
\<close>

theorem west_and_north_do_not_round_trip:
  "fetch (start west_grid) = c8 CHR ''<''
   \<and> exec False (c8 CHR ''<'') (start west_grid) = Inr ((start west_grid)\<lparr>dir := west\<rparr>)
   \<and> pos ((start west_grid)\<lparr>dir := west\<rparr>) = (0, 0)
   \<and> pos (move ((start west_grid)\<lparr>dir := west\<rparr>)) = (51, 0)
   \<and> pos ((move ^^ unat cols) ((start west_grid)\<lparr>dir := west\<rparr>)) = (23, 0)
   \<and> pos (move ((start west_grid)\<lparr>dir := north\<rparr>)) = (0, 15)
   \<and> pos ((move ^^ unat rows) ((start west_grid)\<lparr>dir := north\<rparr>)) = (0, 7)"
proof -
  have "pos ((move ^^ unat cols) ((start west_grid)\<lparr>dir := west\<rparr>)) = (23, 0)"
    by (simp add: unat_cols_rows funpow_numeral_step move_def start_def west_def
        cols_def rows_def max_col_size_def max_row_size_def)
  moreover have "pos ((move ^^ unat rows) ((start west_grid)\<lparr>dir := north\<rparr>)) = (0, 7)"
    by (simp add: unat_cols_rows funpow_numeral_step move_def start_def north_def
        cols_def rows_def max_col_size_def max_row_size_def)
  moreover have "fetch (start west_grid) = c8 CHR ''<''"
    by (simp add: fetch_def start_def west_grid_def blank_grid_def data_size_def cols_def
        max_col_size_def max_row_size_def)
  moreover have "exec False (c8 CHR ''<'') (start west_grid)
      = Inr ((start west_grid)\<lparr>dir := west\<rparr>)"
    by (simp add: exec_def dirs_def west_def)
  moreover have "pos (move ((start west_grid)\<lparr>dir := west\<rparr>)) = (51, 0)"
    by (simp add: move_def start_def west_def cols_def rows_def max_col_size_def
        max_row_size_def)
  moreover have "pos (move ((start west_grid)\<lparr>dir := north\<rparr>)) = (0, 15)"
    by (simp add: move_def start_def north_def cols_def rows_def max_col_size_def
        max_row_size_def)
  ultimately show ?thesis
    by (simp add: start_def)
qed

text \<open>
  C10, at an input where the scan does not terminate. \<^verbatim>\<open>readfile\<close> turns the text
  \<open>north_trap_text\<close> into \<open>north_trap_grid\<close>. When the cursor is on its quote, at column 1
  of row 16 and heading north, the scan that starts with the next \<^verbatim>\<open>move\<close> never returns:
  from row 0 the cursor goes to row 15, so rows 16 to 24 are never seen again, and rows
  0 to 15 of column 1 hold no quote. The run of the program never returns either.
\<close>

theorem string_mode_north_trap_diverges:
  "readfile (map c8 north_trap_text) = Inr north_trap_grid
   \<and> fetch north_trap_quote = c8 CHR 0x22
   \<and> dir north_trap_quote = north
   \<and> in_grid north_trap_quote
   \<and> string_mode (move north_trap_quote) = None
   \<and> interpret_b93 False (start north_trap_grid) = None"
proof -
  have "north_scan (move north_trap_quote)"
    by (simp add: north_scan_def north_trap_quote_def start_def move_def Let_def north_def
        cols_def rows_def max_col_size_def max_row_size_def)
  then have "string_mode (move north_trap_quote) = None"
    by (rule north_scan_diverges)
  moreover have "interpret_b93 False (start north_trap_grid) = None"
    by (simp add: interpret_b93.simps north_scan_diverges north_scan_def start_def fetch_def
        exec_def move_def Let_def dirs_def cols_def rows_def north_def north_trap_grid_def
        blank_grid_def data_size_def max_row_size_def max_col_size_def)
  moreover have "fetch north_trap_quote = c8 CHR 0x22"
    by (simp add: north_trap_quote_def start_def fetch_def north_trap_grid_def blank_grid_def
        data_size_def cols_def max_row_size_def max_col_size_def)
  moreover have "in_grid north_trap_quote"
    by (simp add: in_grid_def north_trap_quote_def start_def cols_def rows_def
        max_col_size_def max_row_size_def)
  ultimately show ?thesis
    by (simp add: readfile_north_trap north_trap_quote_def)
qed

end
